theory Spec2Isabelle
  imports Complex_Main
begin

section \<open>The HC-SR04 driver (\<^verbatim>\<open>src/hcsr04.py\<close>)\<close>

text \<open>
  The driver is one Python class, \<^verbatim>\<open>HCSR04\<close>. Its numbers are Python ints and floats;
  the embedding reads both as mathematical reals (pulse widths and the timeout, which the
  platform gives as ints, stay \<open>int\<close>), so rounding of the float arithmetic and the
  special float values are outside the model. Exceptions are values of \<open>exn\<close>, the
  hardware is an explicit record \<open>machine\<close> passed through every call, and the answer of
  the platform primitive \<^verbatim>\<open>time_pulse_us\<close>, which is not part of the repository, is an
  argument of every measurement.
\<close>

subsection \<open>Exceptions and the platform\<close>

datatype exn = Exception string | OSError int

type_synonym pin_id = nat

datatype pin_mode = Pin_OUT | Pin_IN

text \<open>The calls the driver makes on the modules \<^verbatim>\<open>machine\<close> and \<^verbatim>\<open>utime\<close>, in order.\<close>

datatype event =
    PinInit pin_id pin_mode
  | PinValue pin_id int
  | SleepUs int
  | TimePulseUs pin_id int int

record machine =
  levels :: "pin_id \<Rightarrow> bool"
  trace :: "event list"

definition log_event :: "event \<Rightarrow> machine \<Rightarrow> machine" where
  "log_event ev m = m\<lparr>trace := trace m @ [ev]\<rparr>"

text \<open>\<^verbatim>\<open>Pin(id, mode=..., pull=None)\<close>\<close>

definition Pin :: "pin_id \<Rightarrow> pin_mode \<Rightarrow> machine \<Rightarrow> machine" where
  "Pin p md m = log_event (PinInit p md) m"

text \<open>\<^verbatim>\<open>pin.value(v)\<close>: the output latch of the pin becomes the truth value of \<open>v\<close>.\<close>

definition pin_value :: "pin_id \<Rightarrow> int \<Rightarrow> machine \<Rightarrow> machine" where
  "pin_value p v m = log_event (PinValue p v) (m\<lparr>levels := (levels m)(p := (v \<noteq> 0))\<rparr>)"

definition sleep_us :: "int \<Rightarrow> machine \<Rightarrow> machine" where
  "sleep_us n m = log_event (SleepUs n) m"

text \<open>
  What \<^verbatim>\<open>time_pulse_us(pin, level, timeout)\<close> answers: it raises, or it returns an int.
\<close>

datatype time_pulse = Raise exn | Return int

definition ETIMEDOUT :: int where
  "ETIMEDOUT = 110"

subsection \<open>The class\<close>

record hcsr04 =
  max_working_temp :: real
  min_working_temp :: real
  air_temperature :: real
  sound_speed :: real
  echo_timeout_us :: int
  trigger :: pin_id
  echo :: pin_id

definition default_echo_timeout_us :: int where
  "default_echo_timeout_us = 500 * 2 * 30"

definition default_air_temp :: real where
  "default_air_temp = 20"

text \<open>
  \<^verbatim>\<open>_check_air_temp\<close> reads \<^verbatim>\<open>self.min_working_temp\<close> and \<^verbatim>\<open>self.max_working_temp\<close>; it is
  called while the object is being built, so it takes the two fields.
\<close>

definition check_air_temp :: "real \<Rightarrow> real \<Rightarrow> real \<Rightarrow> exn + real" where
  "check_air_temp min_temp max_temp temperature =
     (if min_temp > temperature \<or> max_temp < temperature
      then Inl (Exception ''temperature out of range'')
      else Inr temperature)"

text \<open>\<^verbatim>\<open>_get_sound_speed\<close> reads \<^verbatim>\<open>self.air_temperature\<close>.\<close>

definition get_sound_speed :: "real \<Rightarrow> real" where
  "get_sound_speed air_temp =
     (let ss = 20.05 * sqrt (air_temp + 273.15);
          ss = ss / 1000
      in ss)"

text \<open>\<^verbatim>\<open>__init__\<close>: on a temperature out of range nothing has been touched yet.\<close>

definition init :: "pin_id \<Rightarrow> pin_id \<Rightarrow> int \<Rightarrow> real \<Rightarrow> machine \<Rightarrow> (exn + hcsr04) \<times> machine" where
  "init trigger_pin echo_pin timeout_us air_temp m =
     (let max_temp = 70; min_temp = - 15 in
      case check_air_temp min_temp max_temp air_temp of
        Inl e \<Rightarrow> (Inl e, m)
      | Inr t \<Rightarrow>
          (let ss = get_sound_speed t;
               m = Pin trigger_pin Pin_OUT m;
               m = pin_value trigger_pin 0 m;
               m = Pin echo_pin Pin_IN m
           in (Inr \<lparr>max_working_temp = max_temp, min_working_temp = min_temp,
                     air_temperature = t, sound_speed = ss, echo_timeout_us = timeout_us,
                     trigger = trigger_pin, echo = echo_pin\<rparr>, m)))"

definition send_pulse_and_wait :: "hcsr04 \<Rightarrow> machine \<Rightarrow> time_pulse \<Rightarrow> (exn + int) \<times> machine" where
  "send_pulse_and_wait self m answer =
     (let m = pin_value (trigger self) 0 m;
          m = sleep_us 5 m;
          m = pin_value (trigger self) 1 m;
          m = sleep_us 10 m;
          m = pin_value (trigger self) 0 m;
          m = log_event (TimePulseUs (echo self) 1 (echo_timeout_us self)) m
      in case answer of
           Raise e \<Rightarrow> (Inl e, m)
         | Return pulse_time \<Rightarrow>
             if pulse_time < 0 then (Inl (Exception ''out of range''), m)
             else (Inr pulse_time, m))"

text \<open>\<^verbatim>\<open>update_air_temp\<close> returns nothing; the second component is the object afterwards.\<close>

definition update_air_temp :: "hcsr04 \<Rightarrow> real \<Rightarrow> (exn + unit) \<times> hcsr04" where
  "update_air_temp self temperature =
     (if min_working_temp self > temperature \<or> max_working_temp self < temperature
      then (Inl (Exception ''temperature out of range''), self)
      else (Inr (), self\<lparr>air_temperature := temperature\<rparr>))"

text \<open>Python's \<^verbatim>\<open>x // y\<close> on floats (floor division) and \<^verbatim>\<open>int(x)\<close> (truncation toward zero).\<close>

definition float_floordiv :: "real \<Rightarrow> real \<Rightarrow> real" where
  "float_floordiv x y = of_int \<lfloor>x / y\<rfloor>"

definition py_int :: "real \<Rightarrow> int" where
  "py_int x = (if x < 0 then \<lceil>x\<rceil> else \<lfloor>x\<rfloor>)"

definition distance_mm :: "hcsr04 \<Rightarrow> machine \<Rightarrow> time_pulse \<Rightarrow> (exn + int) \<times> machine" where
  "distance_mm self m answer =
     (case send_pulse_and_wait self m answer of
        (Inl e, m) \<Rightarrow> (Inl e, m)
      | (Inr pulse_time, m) \<Rightarrow>
          (Inr (py_int (float_floordiv (sound_speed self * of_int pulse_time) 2)), m))"

definition distance_cm :: "hcsr04 \<Rightarrow> machine \<Rightarrow> time_pulse \<Rightarrow> (exn + real) \<times> machine" where
  "distance_cm self m answer =
     (case send_pulse_and_wait self m answer of
        (Inl e, m) \<Rightarrow> (Inl e, m)
      | (Inr pulse_time, m) \<Rightarrow> (Inr ((sound_speed self * of_int pulse_time) / 20), m))"

definition distance_in :: "hcsr04 \<Rightarrow> machine \<Rightarrow> time_pulse \<Rightarrow> (exn + real) \<times> machine" where
  "distance_in self m answer =
     (case send_pulse_and_wait self m answer of
        (Inl e, m) \<Rightarrow> (Inl e, m)
      | (Inr pulse_time, m) \<Rightarrow> (Inr ((sound_speed self * of_int pulse_time) / 50.8), m))"

subsection \<open>Objects in use\<close>

text \<open>
  A caller's sequence of \<^verbatim>\<open>update_air_temp\<close> calls, each wrapped in its own
  \<^verbatim>\<open>try\<close>: a rejected temperature leaves the object as it was and the next call follows.
\<close>

fun updates :: "hcsr04 \<Rightarrow> real list \<Rightarrow> hcsr04" where
  "updates self [] = self"
| "updates self (t # ts) = updates (snd (update_air_temp self t)) ts"

text \<open>A machine on which nothing has happened.\<close>

definition machine0 :: machine where
  "machine0 = \<lparr>levels = (\<lambda>_. False), trace = []\<rparr>"

text \<open>The object built with the default arguments on pins 1 and 2.\<close>

definition sensor0 :: hcsr04 where
  "sensor0 = \<lparr>max_working_temp = 70, min_working_temp = - 15, air_temperature = 20,
     sound_speed = get_sound_speed 20, echo_timeout_us = 30000, trigger = 1, echo = 2\<rparr>"

section \<open>Basic facts\<close>

lemma init_sensor0:
  "fst (init 1 2 default_echo_timeout_us default_air_temp machine0) = Inr sensor0"
  by (simp add: init_def check_air_temp_def sensor0_def default_echo_timeout_us_def
      default_air_temp_def)

lemma init_Inr:
  assumes "fst (init tp ep tmo t m) = Inr s"
  shows "- 15 \<le> t \<and> t \<le> 70 \<and> max_working_temp s = 70 \<and> min_working_temp s = - 15
    \<and> air_temperature s = t \<and> sound_speed s = get_sound_speed t
    \<and> echo_timeout_us s = tmo \<and> trigger s = tp \<and> echo s = ep"
  using assms by (auto simp: init_def check_air_temp_def Let_def split: if_splits)

lemma update_bounds:
  "max_working_temp (snd (update_air_temp s t)) = max_working_temp s
   \<and> min_working_temp (snd (update_air_temp s t)) = min_working_temp s
   \<and> sound_speed (snd (update_air_temp s t)) = sound_speed s
   \<and> echo_timeout_us (snd (update_air_temp s t)) = echo_timeout_us s
   \<and> trigger (snd (update_air_temp s t)) = trigger s
   \<and> echo (snd (update_air_temp s t)) = echo s"
  by (simp add: update_air_temp_def)

lemma updates_bounds:
  "max_working_temp (updates s ts) = max_working_temp s
   \<and> min_working_temp (updates s ts) = min_working_temp s
   \<and> sound_speed (updates s ts) = sound_speed s
   \<and> echo_timeout_us (updates s ts) = echo_timeout_us s
   \<and> trigger (updates s ts) = trigger s
   \<and> echo (updates s ts) = echo s"
  by (induction ts arbitrary: s) (simp_all add: update_bounds)

lemma get_sound_speed_pos:
  assumes "- 15 \<le> t"
  shows "0 < get_sound_speed t"
  using assms by (simp add: get_sound_speed_def Let_def)

lemma send_pulse_and_wait_fst:
  "fst (send_pulse_and_wait s m a) =
     (case a of Raise e \<Rightarrow> Inl e
      | Return p \<Rightarrow> if p < 0 then Inl (Exception ''out of range'') else Inr p)"
  by (simp add: send_pulse_and_wait_def Let_def split: time_pulse.splits)

lemma send_pulse_and_wait_snd:
  "snd (send_pulse_and_wait s m a) =
     log_event (TimePulseUs (echo s) 1 (echo_timeout_us s))
       (pin_value (trigger s) 0 (sleep_us 10 (pin_value (trigger s) 1
         (sleep_us 5 (pin_value (trigger s) 0 m)))))"
  by (simp add: send_pulse_and_wait_def Let_def split: time_pulse.splits)

lemma distance_mm_fst:
  "fst (distance_mm s m a) =
     (case fst (send_pulse_and_wait s m a) of Inl e \<Rightarrow> Inl e
      | Inr p \<Rightarrow> Inr (py_int (float_floordiv (sound_speed s * of_int p) 2)))"
  by (simp add: distance_mm_def split: prod.splits sum.splits)

lemma distance_cm_fst:
  "fst (distance_cm s m a) =
     (case fst (send_pulse_and_wait s m a) of Inl e \<Rightarrow> Inl e
      | Inr p \<Rightarrow> Inr ((sound_speed s * of_int p) / 20))"
  by (simp add: distance_cm_def split: prod.splits sum.splits)

lemma distance_in_fst:
  "fst (distance_in s m a) =
     (case fst (send_pulse_and_wait s m a) of Inl e \<Rightarrow> Inl e
      | Inr p \<Rightarrow> Inr ((sound_speed s * of_int p) / 50.8))"
  by (simp add: distance_in_def split: prod.splits sum.splits)

lemma distance_snd:
  "snd (distance_mm s m a) = snd (send_pulse_and_wait s m a)"
  "snd (distance_cm s m a) = snd (send_pulse_and_wait s m a)"
  "snd (distance_in s m a) = snd (send_pulse_and_wait s m a)"
  by (simp_all add: distance_mm_def distance_cm_def distance_in_def split: prod.splits sum.splits)

lemma py_int_of_int: "py_int (of_int n) = n"
  by (simp add: py_int_def)

lemma updates_init:
  assumes "fst (init tp ep tmo t0 m0) = Inr s0" and "s = updates s0 ts"
  shows "max_working_temp s = 70 \<and> min_working_temp s = - 15
    \<and> sound_speed s = get_sound_speed t0 \<and> - 15 \<le> t0 \<and> t0 \<le> 70"
  using init_Inr [OF assms(1)] assms(2) by (simp add: updates_bounds)

lemma send_pulse_and_wait_trace_aux:
  "trace (snd (send_pulse_and_wait s m a)) =
     trace m @ [PinValue (trigger s) 0, SleepUs 5, PinValue (trigger s) 1, SleepUs 10,
       PinValue (trigger s) 0, TimePulseUs (echo s) 1 (echo_timeout_us s)]"
  by (simp add: send_pulse_and_wait_snd log_event_def pin_value_def sleep_us_def)

lemma send_pulse_and_wait_level:
  "levels (snd (send_pulse_and_wait s m a)) = (levels m)(trigger s := False)"
  by (simp add: send_pulse_and_wait_snd log_event_def pin_value_def sleep_us_def)

section \<open>Thermal state\<close>

text \<open>
  After construction the stored speed of sound is the one computed from the stored
  temperature.
\<close>

lemma init_sound_speed_consistent:
  assumes "fst (init tp ep tmo t m) = Inr s"
  shows "sound_speed s = 20.05 * sqrt (air_temperature s + 273.15) / 1000"
  using init_Inr [OF assms] by (simp add: get_sound_speed_def Let_def)

text \<open>
  Claim C1: a successful \<^verbatim>\<open>update_air_temp(t)\<close> sets \<open>air_temperature\<close> to \<open>t\<close> and
  recomputes \<open>sound_speed\<close>, so that afterwards \<open>sound_speed\<close> is
  \<open>20.05 * sqrt (t + 273.15) / 1000\<close>. The method only assigns \<open>air_temperature\<close>:
  on the object built with the default 20 degrees, the accepted update to 0 degrees stores
  the new temperature and leaves the speed of sound of 20 degrees, which is not the speed
  of sound of 0 degrees.
\<close>

theorem update_air_temp_stale_sound_speed:
  "fst (init 1 2 default_echo_timeout_us default_air_temp machine0) = Inr sensor0
   \<and> update_air_temp sensor0 0 = (Inr (), sensor0\<lparr>air_temperature := 0\<rparr>)
   \<and> air_temperature (snd (update_air_temp sensor0 0)) = 0
   \<and> sound_speed (snd (update_air_temp sensor0 0)) = 20.05 * sqrt (20 + 273.15) / 1000
   \<and> sound_speed (snd (update_air_temp sensor0 0)) \<noteq> 20.05 * sqrt (0 + 273.15) / 1000"
  using init_sensor0
  by (simp add: update_air_temp_def sensor0_def get_sound_speed_def Let_def)

section \<open>Measurement failures\<close>



section \<open>Temperature validation\<close>



text \<open>
  Claim C4: for \<open>t < -15\<close> or \<open>t > 70\<close>, \<^verbatim>\<open>update_air_temp(t)\<close> fails and leaves both
  \<open>air_temperature\<close> and \<open>sound_speed\<close> (indeed the whole object) as they were.
\<close>

theorem update_air_temp_rejected_unchanged:
  assumes "fst (init tp ep tmo t0 m0) = Inr s0" and "s = updates s0 ts"
    and "t < - 15 \<or> t > 70"
  shows "fst (update_air_temp s t) = Inl (Exception ''temperature out of range'')
    \<and> snd (update_air_temp s t) = s
    \<and> air_temperature (snd (update_air_temp s t)) = air_temperature s
    \<and> sound_speed (snd (update_air_temp s t)) = sound_speed s"
proof -
  have "max_working_temp s = 70" "min_working_temp s = - 15"
    using updates_init [OF assms(1,2)] by simp_all
  with assms(3) have "update_air_temp s t = (Inl (Exception ''temperature out of range''), s)"
    by (auto simp: update_air_temp_def)
  then show ?thesis by simp
qed

text \<open>The theorem at a concrete input.\<close>

theorem update_air_temp_rejected_unchanged_witness:
  "fst (init 1 2 default_echo_timeout_us default_air_temp machine0) = Inr sensor0
   \<and> ((71::real) < - 15 \<or> (71::real) > 70)
   \<and> fst (update_air_temp (updates sensor0 [35]) 71) = Inl (Exception ''temperature out of range'')
   \<and> snd (update_air_temp (updates sensor0 [35]) 71) = updates sensor0 [35]
   \<and> air_temperature (snd (update_air_temp (updates sensor0 [35]) 71)) = 35
   \<and> sound_speed (snd (update_air_temp (updates sensor0 [35]) 71)) = get_sound_speed 20"
proof -
  have h: "(71::real) < - 15 \<or> (71::real) > 70" by simp
  have a: "air_temperature (updates sensor0 [35]) = 35"
    by (simp add: update_air_temp_def sensor0_def)
  have b: "sound_speed (updates sensor0 [35]) = get_sound_speed 20"
    by (simp add: update_air_temp_def sensor0_def)
  show ?thesis
    using init_sensor0 h a b update_air_temp_rejected_unchanged [OF init_sensor0 refl h, of "[35]"]
    by simp
qed

section \<open>Unit conversions\<close>



text \<open>
  Claim C6: for a measured pulse width \<open>p \<ge> 0\<close>, \<open>distance_cm\<close> returns
  \<open>(sound_speed * p) / 20\<close> and \<open>distance_in\<close> returns \<open>(sound_speed * p) / 50.8\<close>,
  with no truncation in between.
\<close>

theorem distance_cm_in_formula:
  assumes "0 \<le> p"
  shows "fst (distance_cm s m (Return p)) = Inr ((sound_speed s * of_int p) / 20)
    \<and> fst (distance_in s m (Return p)) = Inr ((sound_speed s * of_int p) / 50.8)"
  using assms by (simp add: distance_cm_fst distance_in_fst send_pulse_and_wait_fst)

text \<open>The theorem at a concrete input.\<close>

theorem distance_cm_in_formula_witness:
  "(0::int) \<le> 1000
   \<and> fst (distance_cm sensor0 machine0 (Return 1000)) = Inr ((sound_speed sensor0 * of_int 1000) / 20)
   \<and> fst (distance_in sensor0 machine0 (Return 1000)) = Inr ((sound_speed sensor0 * of_int 1000) / 50.8)"
proof -
  have h: "(0::int) \<le> 1000" by simp
  show ?thesis using h distance_cm_in_formula [OF h, of sensor0 machine0] by simp
qed

section \<open>The trigger pulse\<close>

text \<open>
  Claim C7: one measurement cycle makes exactly these platform calls, in this order:
  trigger low, sleep 5 microseconds, trigger high, sleep 10 microseconds, trigger low,
  and then the measurement of the high pulse on the echo pin bounded by
  \<open>echo_timeout_us\<close>. Each distance operation runs exactly one such cycle.
\<close>

theorem measurement_cycle_trace:
  "trace (snd (send_pulse_and_wait s m a)) =
     trace m @ [PinValue (trigger s) 0, SleepUs 5, PinValue (trigger s) 1, SleepUs 10,
       PinValue (trigger s) 0, TimePulseUs (echo s) 1 (echo_timeout_us s)]
   \<and> trace (snd (distance_mm s m a)) = trace (snd (send_pulse_and_wait s m a))
   \<and> trace (snd (distance_cm s m a)) = trace (snd (send_pulse_and_wait s m a))
   \<and> trace (snd (distance_in s m a)) = trace (snd (send_pulse_and_wait s m a))"
  by (simp add: distance_snd send_pulse_and_wait_trace_aux)

text \<open>
  Claim C8: the trigger line is low between measurements. It is low after a successful
  construction and after every measurement cycle, whatever \<^verbatim>\<open>time_pulse_us\<close> answered
  (a width, a negative width or an exception); the last call before the wait on the echo
  pin is the write of 0 to the trigger pin.
\<close>

theorem trigger_low_between_measurements:
  "(fst (init tp ep tmo t m) = Inr s \<longrightarrow> \<not> levels (snd (init tp ep tmo t m)) (trigger s))
   \<and> \<not> levels (snd (send_pulse_and_wait s m a)) (trigger s)
   \<and> \<not> levels (snd (distance_mm s m a)) (trigger s)
   \<and> \<not> levels (snd (distance_cm s m a)) (trigger s)
   \<and> \<not> levels (snd (distance_in s m a)) (trigger s)
   \<and> take 2 (rev (trace (snd (send_pulse_and_wait s m a))))
       = [TimePulseUs (echo s) 1 (echo_timeout_us s), PinValue (trigger s) 0]"
proof -
  have "fst (init tp ep tmo t m) = Inr s \<longrightarrow> \<not> levels (snd (init tp ep tmo t m)) (trigger s)"
    by (auto simp: init_def check_air_temp_def Let_def Pin_def pin_value_def log_event_def
        split: if_splits)
  then show ?thesis
    by (simp add: distance_snd send_pulse_and_wait_level send_pulse_and_wait_trace_aux)
qed

text \<open>The theorem at a concrete input.\<close>

theorem trigger_low_between_measurements_witness:
  "fst (init 1 2 default_echo_timeout_us default_air_temp (machine0\<lparr>levels := (\<lambda>_. True)\<rparr>))
     = Inr sensor0
   \<and> \<not> levels (snd (init 1 2 default_echo_timeout_us default_air_temp
         (machine0\<lparr>levels := (\<lambda>_. True)\<rparr>))) (trigger sensor0)
   \<and> \<not> levels (snd (distance_mm sensor0 (machine0\<lparr>levels := (\<lambda>_. True)\<rparr>)
         (Raise (OSError ETIMEDOUT)))) (trigger sensor0)
   \<and> \<not> levels (snd (distance_cm sensor0 (machine0\<lparr>levels := (\<lambda>_. True)\<rparr>) (Return 1000)))
         (trigger sensor0)"
proof -
  have h: "fst (init 1 2 default_echo_timeout_us default_air_temp
      (machine0\<lparr>levels := (\<lambda>_. True)\<rparr>)) = Inr sensor0"
    by (simp add: init_def check_air_temp_def sensor0_def default_echo_timeout_us_def
        default_air_temp_def)
  show ?thesis
    using h
      trigger_low_between_measurements [of 1 2 default_echo_timeout_us default_air_temp
        "machine0\<lparr>levels := (\<lambda>_. True)\<rparr>" sensor0 "Raise (OSError ETIMEDOUT)"]
      trigger_low_between_measurements [of 1 2 default_echo_timeout_us default_air_temp
        "machine0\<lparr>levels := (\<lambda>_. True)\<rparr>" sensor0 "Return 1000"]
    by simp
qed

section \<open>Repeated calls\<close>

text \<open>
  Claim C9: two consecutive successful \<open>distance_cm\<close> calls on the same object that
  observe the same pulse width return the same value, and \<^verbatim>\<open>update_air_temp\<close> called with
  the current \<open>air_temperature\<close> leaves \<open>sound_speed\<close> unchanged.
\<close>

theorem distance_cm_repeatable_update_same_temp:
  "(fst (distance_cm s m (Return p)) = Inr v1 \<longrightarrow>
      fst (distance_cm s (snd (distance_cm s m (Return p))) (Return p)) = Inr v2 \<longrightarrow> v1 = v2)
   \<and> sound_speed (snd (update_air_temp s (air_temperature s))) = sound_speed s"
  by (auto simp: distance_cm_fst send_pulse_and_wait_fst update_air_temp_def split: if_splits)

text \<open>The theorem at a concrete input.\<close>

theorem distance_cm_repeatable_update_same_temp_witness:
  "fst (distance_cm sensor0 machine0 (Return 1000)) = Inr (get_sound_speed 20 * 50)
   \<and> fst (distance_cm sensor0 (snd (distance_cm sensor0 machine0 (Return 1000))) (Return 1000))
       = Inr (get_sound_speed 20 * 50)
   \<and> sound_speed (snd (update_air_temp sensor0 (air_temperature sensor0))) = sound_speed sensor0"
proof -
  have h1: "fst (distance_cm sensor0 machine0 (Return 1000)) = Inr (get_sound_speed 20 * 50)"
    by (simp add: distance_cm_fst send_pulse_and_wait_fst sensor0_def)
  have h2: "fst (distance_cm sensor0 (snd (distance_cm sensor0 machine0 (Return 1000)))
      (Return 1000)) = Inr (get_sound_speed 20 * 50)"
    by (simp add: distance_cm_fst send_pulse_and_wait_fst sensor0_def)
  show ?thesis
    using h1 h2 distance_cm_repeatable_update_same_temp [of sensor0 machine0 1000
        "get_sound_speed 20 * 50" "get_sound_speed 20 * 50"]
    by simp
qed

section \<open>Signs\<close>

text \<open>
  Claim C10: for every temperature in \<open>[-15, 70]\<close> the computed speed of sound is
  strictly positive; so on every object built by \<open>init\<close> and put through any sequence of
  updates the stored speed of sound is positive, and for every pulse width \<open>p \<ge> 0\<close> the
  three distance operations succeed with a nonnegative result.
\<close>

theorem distances_nonneg:
  assumes "fst (init tp ep tmo t0 m0) = Inr s0" and "s = updates s0 ts" and "0 \<le> p"
  shows "(- 15 \<le> t \<and> t \<le> 70 \<longrightarrow> 0 < get_sound_speed t)
    \<and> 0 < sound_speed s
    \<and> (case fst (distance_mm s m (Return p)) of Inl e \<Rightarrow> False | Inr d \<Rightarrow> 0 \<le> d)
    \<and> (case fst (distance_cm s m (Return p)) of Inl e \<Rightarrow> False | Inr d \<Rightarrow> 0 \<le> d)
    \<and> (case fst (distance_in s m (Return p)) of Inl e \<Rightarrow> False | Inr d \<Rightarrow> 0 \<le> d)"
proof -
  have ss: "0 < sound_speed s"
    using updates_init [OF assms(1,2)] by (simp add: get_sound_speed_pos)
  with assms(3) have x: "0 \<le> sound_speed s * of_int p" by simp
  then have "0 \<le> sound_speed s * of_int p / 2" by simp
  then have mm: "0 \<le> \<lfloor>sound_speed s * of_int p / 2\<rfloor>" by simp
  have "fst (distance_mm s m (Return p)) = Inr \<lfloor>sound_speed s * of_int p / 2\<rfloor>"
    using assms(3)
    by (simp add: distance_mm_fst send_pulse_and_wait_fst float_floordiv_def py_int_of_int)
  with mm have 1: "case fst (distance_mm s m (Return p)) of Inl e \<Rightarrow> False | Inr d \<Rightarrow> 0 \<le> d"
    by simp
  have 2: "case fst (distance_cm s m (Return p)) of Inl e \<Rightarrow> False | Inr d \<Rightarrow> 0 \<le> d"
    using assms(3) x by (simp add: distance_cm_fst send_pulse_and_wait_fst)
  have 3: "case fst (distance_in s m (Return p)) of Inl e \<Rightarrow> False | Inr d \<Rightarrow> 0 \<le> d"
    using assms(3) x by (simp add: distance_in_fst send_pulse_and_wait_fst)
  from ss 1 2 3 show ?thesis by (simp add: get_sound_speed_pos)
qed

text \<open>The theorem at a concrete input.\<close>

theorem distances_nonneg_witness:
  "fst (init 1 2 default_echo_timeout_us default_air_temp machine0) = Inr sensor0
   \<and> (0::int) \<le> 1000
   \<and> 0 < get_sound_speed (- 15)
   \<and> 0 < sound_speed (updates sensor0 [0, 100])
   \<and> (case fst (distance_mm (updates sensor0 [0, 100]) machine0 (Return 1000))
        of Inl e \<Rightarrow> False | Inr d \<Rightarrow> 0 \<le> d)
   \<and> (case fst (distance_cm (updates sensor0 [0, 100]) machine0 (Return 1000))
        of Inl e \<Rightarrow> False | Inr d \<Rightarrow> 0 \<le> d)
   \<and> (case fst (distance_in (updates sensor0 [0, 100]) machine0 (Return 1000))
        of Inl e \<Rightarrow> False | Inr d \<Rightarrow> 0 \<le> d)"
proof -
  have h: "(0::int) \<le> 1000" by simp
  show ?thesis
    using init_sensor0 h
      distances_nonneg [OF init_sensor0 refl h, of "- 15" "[0, 100]" machine0]
    by simp
qed

end
